theory Spec2Isabelle
  imports Complex_Main "HOL-Library.Word" "HOL-Library.State_Monad"
begin

unbundle bit_operations_syntax

section \<open>Values, errors and results\<close>

text \<open>Machine integers are words. A signed integer is the word of its two's
  complement bits, read with \<open>sint\<close>; the conversion \<^verbatim>\<open>uint32(x)\<close> of an \<^verbatim>\<open>int32\<close> keeps
  the bits.\<close>

type_synonym u32 = "32 word"
type_synonym int32 = "32 word"
type_synonym int64 = "64 word"
type_synonym byte = "8 word"

text \<open>The values of \<^verbatim>\<open>reflect.Kind\<close> that the package stores in \<^verbatim>\<open>Base.returnType\<close>;
  \<^verbatim>\<open>reflect.Invalid\<close> is the zero value.\<close>

datatype Kind = reflect_Invalid | reflect_Bool | reflect_Int64 | reflect_Uint32
  | reflect_Float32 | reflect_String

text \<open>Go's \<^verbatim>\<open>any\<close>, restricted to the dynamic types that the package produces or that a
  caller hands to \<^verbatim>\<open>ToHeatPump\<close>. A finite \<^verbatim>\<open>float32\<close> is the rational number it denotes;
  a \<^verbatim>\<open>time.Duration\<close> is its count of nanoseconds.\<close>

datatype anyval = VNil | VUint32 u32 | VInt int64 | VFloat32 rat | VString string
  | VBool bool | VDuration int

datatype panic = IndexOutOfRange nat nat | NilDereference | Todo

text \<open>Errors are values. \<open>ErrWritingNotAllowed\<close> is the package-level sentinel created with
  \<^verbatim>\<open>errors.New\<close>; every \<^verbatim>\<open>fmt.Errorf\<close> call site of the source has a constructor of its own,
  carrying the arguments of its format string (a wrapped error where the format uses
  \<^verbatim>\<open>%w\<close>). \<open>EOF\<close> and \<open>IOError\<close> are the failures of the transport.\<close>

datatype error =
    ErrWritingNotAllowed
  | Errorf_non_writeable anyval
  | Errorf_code_not_found string
  | Errorf_length_mismatch nat nat
  | Errorf_empty
  | Errorf_netWrite int32 error
  | Errorf_readUint32_cmd error
  | Errorf_invalid_command u32 int32
  | Errorf_readUint32_length error
  | Errorf_paramID u32 error
  | Errorf_char_size nat
  | Errorf_netRead error
  | EOF
  | IOError string

text \<open>What a call does: it returns a value, returns an error, or panics.\<close>

datatype 'a result = Ok 'a | Err error | Panic panic

text \<open>The operations that the model does not compute: IEEE-754 arithmetic on
  \<^verbatim>\<open>float32\<close> and \<^verbatim>\<open>float64\<close>, and the conversions of \<^verbatim>\<open>github.com/spf13/cast\<close> on a value
  whose dynamic type is not already the target type. Each field stands for one
  expression of the source:
  \<^item> \<open>mul_to_uint32 raw f\<close> for \<^verbatim>\<open>uint32(float32(raw) * f)\<close>,
  \<^item> \<open>roundFloat_mul raw f\<close> for \<^verbatim>\<open>roundFloat(float64(raw)*float64(f), 3)\<close>,
  \<^item> \<open>float32_of raw\<close> for \<^verbatim>\<open>float32(raw)\<close>,
  \<^item> \<open>div_to_uint32 v f\<close> for \<^verbatim>\<open>uint32(cast.ToFloat32(v) / f)\<close>,
  \<^item> \<open>ToString_conv\<close>, \<open>ToUint32_conv\<close>, \<open>ToBool_conv\<close> for the conversions proper.\<close>

record lib =
  mul_to_uint32 :: "u32 \<Rightarrow> rat \<Rightarrow> u32"
  roundFloat_mul :: "u32 \<Rightarrow> rat \<Rightarrow> rat"
  float32_of :: "u32 \<Rightarrow> rat"
  div_to_uint32 :: "anyval \<Rightarrow> rat \<Rightarrow> u32"
  ToString_conv :: "anyval \<Rightarrow> string"
  ToUint32_conv :: "anyval \<Rightarrow> u32"
  ToBool_conv :: "anyval \<Rightarrow> bool"

text \<open>\<^verbatim>\<open>cast.ToString\<close>, \<^verbatim>\<open>cast.ToUint32\<close> and \<^verbatim>\<open>cast.ToBool\<close> return a value of the target
  type as it is.\<close>

definition cast_ToString :: "lib \<Rightarrow> anyval \<Rightarrow> string" where
  "cast_ToString L v = (case v of VString s \<Rightarrow> s | _ \<Rightarrow> ToString_conv L v)"

definition cast_ToUint32 :: "lib \<Rightarrow> anyval \<Rightarrow> u32" where
  "cast_ToUint32 L v = (case v of VUint32 w \<Rightarrow> w | _ \<Rightarrow> ToUint32_conv L v)"

definition cast_ToBool :: "lib \<Rightarrow> anyval \<Rightarrow> bool" where
  "cast_ToBool L v = (case v of VBool t \<Rightarrow> t | _ \<Rightarrow> ToBool_conv L v)"

text \<open>An instance of \<open>lib\<close> for running the model on concrete inputs whose path needs
  none of its operations.\<close>

definition inert_lib :: lib where
  "inert_lib = \<lparr> mul_to_uint32 = (\<lambda>_ _. 0), roundFloat_mul = (\<lambda>_ _. 0),
     float32_of = (\<lambda>_. 0), div_to_uint32 = (\<lambda>_ _. 0), ToString_conv = (\<lambda>_. []),
     ToUint32_conv = (\<lambda>_. 0), ToBool_conv = (\<lambda>_. False) \<rparr>"

text \<open>The verb \<^verbatim>\<open>%d\<close> of \<^verbatim>\<open>fmt.Sprintf\<close> on an unsigned integer.\<close>

definition digit :: "nat \<Rightarrow> char" where
  "digit d = ''0123456789'' ! d"

function itoa :: "nat \<Rightarrow> string" where
  "itoa n = (if n < 10 then [digit n] else itoa (n div 10) @ [digit (n mod 10)])"
  by pat_completeness auto
termination
  by (relation "measure (\<lambda>n. n)") auto

declare itoa.simps [simp del]

section \<open>Register descriptor\<close>

definition classEnergy :: string where "classEnergy = ''energy''"
definition classTemperature :: string where "classTemperature = ''temperature''"
definition classNone :: string where "classNone = ''none''"
definition classSelection :: string where "classSelection = ''selection''"
definition classCount :: string where "classCount = ''count''"
definition classDuration :: string where "classDuration = ''duration''"

text \<open>The struct \<^verbatim>\<open>Base\<close>. A nil function value or nil slice is \<open>None\<close>. The field
  \<^verbatim>\<open>class\<close> is \<open>cls\<close> here.\<close>

record Base =
  customFromHP :: "(u32 \<Rightarrow> anyval) option"
  customToHP :: "(lib \<Rightarrow> anyval \<Rightarrow> u32 result) option"
  codes :: "string list option"
  returnType :: Kind
  name :: string
  cls :: string
  luxtronikName :: string
  unit :: string
  rawValue :: u32
  prevRawValue :: u32
  factor :: rat
  writeable :: bool

text \<open>The zero value of the struct: what a composite literal leaves in the fields it
  does not name.\<close>

definition zero_Base :: Base where
  "zero_Base = \<lparr> customFromHP = None, customToHP = None, codes = None,
     returnType = reflect_Invalid, name = [], cls = [], luxtronikName = [], unit = [],
     rawValue = 0, prevRawValue = 0, factor = 0, writeable = False \<rparr>"

definition SetRaw :: "Base \<Rightarrow> u32 \<Rightarrow> Base" where
  "SetRaw b val = b\<lparr> prevRawValue := rawValue b, rawValue := val \<rparr>"

definition HasChanges :: "Base \<Rightarrow> bool" where
  "HasChanges b \<longleftrightarrow> prevRawValue b \<noteq> rawValue b"

text \<open>Indexing a slice of strings: out of range panics.\<close>

definition index_codes :: "string list \<Rightarrow> nat \<Rightarrow> anyval result" where
  "index_codes cs i =
     (if i < length cs then Ok (VString (cs ! i)) else Panic (IndexOutOfRange i (length cs)))"

text \<open>\<^verbatim>\<open>Base.FromHeatPump\<close>. The receiver is only read: the body assigns no field.\<close>

definition FromHeatPump :: "lib \<Rightarrow> Base \<Rightarrow> anyval result" where
  "FromHeatPump L b =
     (case codes b of
        Some cs \<Rightarrow>
          if rawValue b > word_of_nat (length cs)
          then Ok (VString (''unknown code: '' @ itoa (unat (rawValue b))))
          else index_codes cs (unat (rawValue b))
      | None \<Rightarrow>
          (case customFromHP b of
             Some f \<Rightarrow> Ok (f (rawValue b))
           | None \<Rightarrow>
               if cls b = classDuration \<and> name b = ''seconds''
               then Ok (VDuration (uint (rawValue b) * 1000000000))
               else (case returnType b of
                       reflect_Uint32 \<Rightarrow>
                         if factor b \<noteq> 0
                         then Ok (VUint32 (mul_to_uint32 L (rawValue b) (factor b)))
                         else Ok (VUint32 (rawValue b))
                     | reflect_Float32 \<Rightarrow>
                         if factor b \<noteq> 0
                         then Ok (VFloat32 (roundFloat_mul L (rawValue b) (factor b)))
                         else Ok (VFloat32 (float32_of L (rawValue b)))
                     | _ \<Rightarrow> Ok (VUint32 (rawValue b)))))"

text \<open>The loop of \<^verbatim>\<open>ToHeatPump\<close> over the code table: the first index whose string
  equals the requested one.\<close>

fun find_code :: "string list \<Rightarrow> string \<Rightarrow> nat \<Rightarrow> nat option" where
  "find_code [] vals idx = None"
| "find_code (code # rest) vals idx =
     (if code = vals then Some idx else find_code rest vals (Suc idx))"

text \<open>\<^verbatim>\<open>Base.ToHeatPump\<close>. The custom encoder is called with \<^verbatim>\<open>b.rawValue\<close>, as the source
  writes it.\<close>

definition ToHeatPump :: "lib \<Rightarrow> Base \<Rightarrow> anyval \<Rightarrow> u32 result" where
  "ToHeatPump L b val =
     (if \<not> writeable b then Err (Errorf_non_writeable val)
      else case codes b of
        Some cs \<Rightarrow>
          (let vals = cast_ToString L val in
           case find_code cs vals 0 of
             Some idx \<Rightarrow> Ok (word_of_nat idx)
           | None \<Rightarrow> Err (Errorf_code_not_found vals))
      | None \<Rightarrow>
          (case customToHP b of
             Some f \<Rightarrow> f L (VUint32 (rawValue b))
           | None \<Rightarrow>
               (case returnType b of
                  reflect_Uint32 \<Rightarrow>
                    if factor b \<noteq> 0 then Ok (div_to_uint32 L val (factor b))
                    else Ok (rawValue b)
                | reflect_Float32 \<Rightarrow>
                    if factor b \<noteq> 0 then Ok (div_to_uint32 L val (factor b))
                    else Ok (cast_ToUint32 L val)
                | _ \<Rightarrow> Ok (rawValue b))))"

section \<open>The catalogue of descriptor constructors\<close>

text \<open>Each constructor is the composite literal of the source over \<open>zero_Base\<close>. In a
  slice literal with index keys the indices left out hold the empty string.\<close>

definition NewCelsius :: "string \<Rightarrow> bool \<Rightarrow> Base" where
  "NewCelsius n w = zero_Base\<lparr> returnType := reflect_Float32, name := ''celsius'',
     cls := classTemperature, luxtronikName := n, unit := [CHR 0xC2, CHR 0xB0, CHR ''C''], writeable := w,
     factor := 13421773 / 134217728 \<rparr>"

definition NewFlow :: "string \<Rightarrow> Base" where
  "NewFlow n = zero_Base\<lparr> returnType := reflect_Float32, name := ''Flow'',
     cls := ''flow'', luxtronikName := n, unit := ''l/h'' \<rparr>"

definition NewUnknown :: "string \<Rightarrow> Base" where
  "NewUnknown n = zero_Base\<lparr> returnType := reflect_Uint32, name := classNone,
     cls := ''none'', luxtronikName := n, writeable := False \<rparr>"

definition NewCount :: "string \<Rightarrow> Base" where
  "NewCount n = zero_Base\<lparr> returnType := reflect_Uint32, name := ''Count'',
     cls := classCount, luxtronikName := n \<rparr>"

definition NewSeconds :: "string \<Rightarrow> Base" where
  "NewSeconds n = zero_Base\<lparr> returnType := reflect_Int64, name := ''seconds'',
     cls := classDuration, luxtronikName := n, unit := ''s'' \<rparr>"

definition NewHours :: "string \<Rightarrow> bool \<Rightarrow> Base" where
  "NewHours n w = zero_Base\<lparr> returnType := reflect_Int64, name := ''hours'',
     cls := classDuration, luxtronikName := n, unit := ''h'', writeable := w,
     factor := 13421773 / 134217728 \<rparr>"

definition NewHours2 :: "string \<Rightarrow> bool \<Rightarrow> Base" where
  "NewHours2 n w = zero_Base\<lparr>
     customFromHP := Some (\<lambda>val. VUint32 (1 + val div 2)),
     customToHP := Some (\<lambda>L val. Ok ((cast_ToUint32 L val - 1) * 2)),
     returnType := reflect_Int64, name := ''hours2'', cls := classDuration,
     luxtronikName := n, unit := ''h'', writeable := w \<rparr>"

definition NewMinutes :: "string \<Rightarrow> bool \<Rightarrow> Base" where
  "NewMinutes n w = zero_Base\<lparr> returnType := reflect_Int64, name := ''minutes'',
     cls := classDuration, luxtronikName := n, unit := ''min'', writeable := w \<rparr>"

definition NewMajorMinorVersion :: "string \<Rightarrow> Base" where
  "NewMajorMinorVersion n = zero_Base\<lparr>
     customFromHP := Some (\<lambda>val.
       if val > 0 then VString (itoa (unat (val div 100)) @ ''.'' @ itoa (unat (val mod 100)))
       else VString ''0''),
     customToHP := Some (\<lambda>L val. Err ErrWritingNotAllowed),
     returnType := reflect_String, name := ''MajorMinorVersion'', cls := ''version'',
     luxtronikName := n, unit := [] \<rparr>"

definition NewBool :: "string \<Rightarrow> bool \<Rightarrow> Base" where
  "NewBool n w = zero_Base\<lparr>
     customFromHP := Some (\<lambda>val. VBool (val = 1)),
     customToHP := Some (\<lambda>L val. if cast_ToBool L val then Ok 1 else Ok 0),
     returnType := reflect_Bool, name := ''Bool'', cls := ''boolean'',
     luxtronikName := n, writeable := w \<rparr>"

definition NewHeatingMode :: "string \<Rightarrow> bool \<Rightarrow> Base" where
  "NewHeatingMode n w = zero_Base\<lparr> returnType := reflect_String, name := ''HeatingMode'',
     luxtronikName := n, cls := classSelection, writeable := w,
     codes := Some [''Automatic'', ''Second heatsource'', ''Party'', ''Holidays'', ''Off''] \<rparr>"

definition NewHotWaterMode :: "string \<Rightarrow> bool \<Rightarrow> Base" where
  "NewHotWaterMode n w = (NewHeatingMode n w)\<lparr> name := ''HotWaterMode'' \<rparr>"

definition NewPoolMode :: "string \<Rightarrow> bool \<Rightarrow> Base" where
  "NewPoolMode n w =
     (let b = NewHeatingMode n w
      in b\<lparr> codes := map_option (\<lambda>cs. cs[1 := []]) (codes b), name := ''PoolMode'' \<rparr>)"

definition NewAccessLevel :: "string \<Rightarrow> bool \<Rightarrow> Base" where
  "NewAccessLevel n w = zero_Base\<lparr> returnType := reflect_String, name := ''AccessLevel'',
     luxtronikName := n, cls := ''selection'', writeable := w,
     codes := Some [''user'', ''after sales service'', ''manufacturer'', ''installer''] \<rparr>"

definition NewMixedCircuitMode :: "string \<Rightarrow> bool \<Rightarrow> Base" where
  "NewMixedCircuitMode n w = zero_Base\<lparr> returnType := reflect_String,
     name := ''MixedCircuitMode'', luxtronikName := n, cls := ''selection'', writeable := w,
     codes := Some [''Automatic'', [], ''Party'', ''Holidays'', ''Off''] \<rparr>"

definition NewCoolingMode :: "string \<Rightarrow> bool \<Rightarrow> Base" where
  "NewCoolingMode n w = zero_Base\<lparr> returnType := reflect_String, name := ''CoolingMode'',
     luxtronikName := n, cls := ''selection'', writeable := w,
     codes := Some [''Off'', ''Automatic''] \<rparr>"

definition NewSolarMode :: "string \<Rightarrow> bool \<Rightarrow> Base" where
  "NewSolarMode n w = (NewCoolingMode n w)\<lparr> name := ''SolarMode'' \<rparr>"

definition NewVentilationMode :: "string \<Rightarrow> bool \<Rightarrow> Base" where
  "NewVentilationMode n w = zero_Base\<lparr> returnType := reflect_String,
     name := ''VentilationMode'', luxtronikName := n, cls := ''selection'', writeable := w,
     codes := Some [''Automatic'', ''Party'', ''Holidays'', ''Off''] \<rparr>"

definition NewBivalenceLevel :: "string \<Rightarrow> Base" where
  "NewBivalenceLevel n = zero_Base\<lparr> returnType := reflect_String, name := ''BivalenceLevel'',
     luxtronikName := n, cls := ''selection'',
     codes := Some [[], ''one compressor allowed to run'', ''two compressors allowed to run'',
       ''additional heat generator allowed to run''] \<rparr>"

definition NewSecOperationMode :: "string \<Rightarrow> Base" where
  "NewSecOperationMode n = zero_Base\<lparr> returnType := reflect_String,
     name := ''SecOperationMode'', luxtronikName := n, cls := ''selection'',
     codes := Some [''off'', ''cooling'', ''heating'', ''fault'', ''transition'', ''defrost'',
       ''waiting'', ''waiting'', ''transition'', ''stop'', ''manual'', ''simulation start'',
       ''evu lock''] \<rparr>"

text \<open>The constructors of enumerated descriptors that take a \<^verbatim>\<open>writeable\<close> argument: the
  only enumerated descriptors that can be writeable.\<close>

definition writeable_enums :: "(string \<Rightarrow> bool \<Rightarrow> Base) list" where
  "writeable_enums = [NewHeatingMode, NewHotWaterMode, NewPoolMode, NewAccessLevel,
     NewMixedCircuitMode, NewCoolingMode, NewSolarMode, NewVentilationMode]"

section \<open>Register map\<close>

text \<open>\<^verbatim>\<open>DataTypeMap\<close> is \<^verbatim>\<open>map[int]*Base\<close>: the descriptors are shared objects, reached
  through pointers. A pointer is an address or nil (\<open>None\<close>); the heap gives the object
  at each address. Indexing the map with an absent key yields the zero value, nil.\<close>

type_synonym addr = nat
type_synonym heap = "addr \<Rightarrow> Base"
type_synonym DataTypeMap = "int \<rightharpoonup> addr option"

definition map_index :: "DataTypeMap \<Rightarrow> int \<Rightarrow> addr option" where
  "map_index pm k = (case pm k of None \<Rightarrow> None | Some p \<Rightarrow> p)"

definition len_map :: "DataTypeMap \<Rightarrow> nat" where
  "len_map pm = card (dom pm)"

text \<open>The loop \<^verbatim>\<open>for idx, raw := range data { pm[idx].SetRaw(raw) }\<close>, from index \<open>idx\<close>
  on. \<^verbatim>\<open>SetRaw\<close> on a nil receiver dereferences it and panics.\<close>

fun SetRawValues_loop :: "DataTypeMap \<Rightarrow> nat \<Rightarrow> u32 list \<Rightarrow> heap \<Rightarrow> unit result \<times> heap" where
  "SetRawValues_loop pm idx [] h = (Ok (), h)"
| "SetRawValues_loop pm idx (raw # rest) h =
     (case map_index pm (int idx) of
        None \<Rightarrow> (Panic NilDereference, h)
      | Some a \<Rightarrow> SetRawValues_loop pm (Suc idx) rest (h(a := SetRaw (h a) raw)))"

definition SetRawValues :: "DataTypeMap \<Rightarrow> u32 list \<Rightarrow> heap \<Rightarrow> unit result \<times> heap" where
  "SetRawValues pm data h =
     (let dl = length data; pml = len_map pm
      in if dl \<noteq> pml then (Err (Errorf_length_mismatch dl pml), h)
         else SetRawValues_loop pm 0 data h)"

section \<open>Transport\<close>

text \<open>\<^verbatim>\<open>net.Conn\<close> is an interface of the standard library. A connection is modelled by
  what its peer does: the stream it delivers is a list of events, one per arrival, and a
  call \<^verbatim>\<open>Read(buf)\<close> takes at most \<^verbatim>\<open>len(buf)\<close> bytes of the arrival at the head (a short
  read when it holds fewer), or returns the failure at the head. A stream with no event
  left is at its end. \<^verbatim>\<open>Write\<close> appends to the bytes sent unless the connection is set
  to fail writes.\<close>

datatype read_event = Chunk "byte list" | Fail error

record Conn =
  incoming :: "read_event list"
  sent :: "byte list"
  write_error :: "error option"

definition conn_Read :: "nat \<Rightarrow> Conn \<Rightarrow> (byte list \<times> error option) \<times> Conn" where
  "conn_Read k cn =
     (case incoming cn of
        [] \<Rightarrow> (([], Some EOF), cn)
      | Fail e # rest \<Rightarrow> (([], Some e), cn\<lparr> incoming := rest \<rparr>)
      | Chunk bs # rest \<Rightarrow>
          ((take k bs, None),
           cn\<lparr> incoming := (if length bs \<le> k then rest else Chunk (drop k bs) # rest) \<rparr>))"

definition conn_Write :: "byte list \<Rightarrow> Conn \<Rightarrow> (nat \<times> error option) \<times> Conn" where
  "conn_Write bs cn =
     (case write_error cn of
        Some e \<Rightarrow> ((0, Some e), cn)
      | None \<Rightarrow> ((length bs, None), cn\<lparr> sent := sent cn @ bs \<rparr>))"

section \<open>Session and wire codec\<close>

definition ParametersWrite :: int32 where "ParametersWrite = 3002"
definition CalculationsRead :: int32 where "CalculationsRead = 3004"
definition VisibilitiesRead :: int32 where "VisibilitiesRead = 3005"
definition SocketReadSizeInteger :: nat where "SocketReadSizeInteger = 4"
definition SocketReadSizeChar :: nat where "SocketReadSizeChar = 1"

text \<open>The struct \<^verbatim>\<open>Client\<close>; of its fields the operations below use \<^verbatim>\<open>conn\<close> only, nil
  before \<^verbatim>\<open>Connect\<close>.\<close>

record Client =
  host :: string
  port :: string
  conn :: "Conn option"

text \<open>\<^verbatim>\<open>binary.BigEndian.Uint32\<close>: it touches \<^verbatim>\<open>b[3]\<close> first, so a slice shorter than four
  bytes panics.\<close>

definition BigEndian_Uint32 :: "byte list \<Rightarrow> u32 result" where
  "BigEndian_Uint32 b =
     (if length b < 4 then Panic (IndexOutOfRange 3 (length b))
      else Ok (ucast (b ! 3) OR push_bit 8 (ucast (b ! 2)) OR push_bit 16 (ucast (b ! 1))
                 OR push_bit 24 (ucast (b ! 0))))"

text \<open>The four bytes \<^verbatim>\<open>binary.Write\<close> emits for one \<^verbatim>\<open>int32\<close> in big-endian order.\<close>

definition BigEndian_bytes :: "int32 \<Rightarrow> byte list" where
  "BigEndian_bytes v = [ucast (drop_bit 24 v), ucast (drop_bit 16 v), ucast (drop_bit 8 v), ucast v]"

definition readUint32 :: "Client \<Rightarrow> u32 result \<times> Client" where
  "readUint32 c =
     (case conn c of
        None \<Rightarrow> (Panic NilDereference, c)
      | Some cn \<Rightarrow>
          (case conn_Read SocketReadSizeInteger cn of
             ((bs, Some err), cn') \<Rightarrow> (Err err, c\<lparr> conn := Some cn' \<rparr>)
           | ((bs, None), cn') \<Rightarrow> (BigEndian_Uint32 bs, c\<lparr> conn := Some cn' \<rparr>)))"

definition readChar :: "Client \<Rightarrow> byte result \<times> Client" where
  "readChar c =
     (case conn c of
        None \<Rightarrow> (Panic NilDereference, c)
      | Some cn \<Rightarrow>
          (case conn_Read SocketReadSizeChar cn of
             ((bs, Some err), cn') \<Rightarrow> (Err err, c\<lparr> conn := Some cn' \<rparr>)
           | ((bs, None), cn') \<Rightarrow>
               (if length bs \<noteq> SocketReadSizeChar then Err (Errorf_char_size (length bs))
                else Ok (bs ! 0),
                c\<lparr> conn := Some cn' \<rparr>)))"

text \<open>The size of the stream still to come, counting each event: the measure of
  \<^verbatim>\<open>netRead\<close>'s loop.\<close>

fun pending :: "read_event list \<Rightarrow> nat" where
  "pending [] = 0"
| "pending (Chunk bs # rest) = Suc (length bs) + pending rest"
| "pending (Fail e # rest) = Suc (pending rest)"

text \<open>\<^verbatim>\<open>Client.netRead\<close> on a connection: the loop with \<open>todo = end - cur\<close> bytes still
  to read and \<open>got\<close> the bytes \<^verbatim>\<open>b[0:cur]\<close> read so far. It returns the bytes stored in
  \<open>b\<close> with the error, if any. A read that comes back short has used up the arrival at
  the head of the stream, which is why the loop ends on every stream of the model.\<close>

function netRead_loop :: "nat \<Rightarrow> byte list \<Rightarrow> Conn \<Rightarrow> (byte list \<times> error option) \<times> Conn" where
  "netRead_loop todo got cn =
     (case conn_Read todo cn of
        ((bs, Some err), cn') \<Rightarrow> ((got @ bs, Some (Errorf_netRead err)), cn')
      | ((bs, None), cn') \<Rightarrow>
          if length bs = todo then ((got @ bs, None), cn')
          else netRead_loop (todo - length bs) (got @ bs) cn')"
  by pat_completeness auto
termination
  apply (relation "measure (\<lambda>(todo, got, cn). pending (incoming cn))")
   apply simp
  apply (auto simp: conn_Read_def split: list.splits read_event.splits if_splits)
  done

declare netRead_loop.simps [simp del]

definition netRead :: "Client \<Rightarrow> nat \<Rightarrow> (byte list \<times> error option) result \<times> Client" where
  "netRead c len_b =
     (case conn c of
        None \<Rightarrow> (Panic NilDereference, c)
      | Some cn \<Rightarrow>
          (case netRead_loop len_b [] cn of (r, cn') \<Rightarrow> (Ok r, c\<lparr> conn := Some cn' \<rparr>)))"

definition netWrite :: "Client \<Rightarrow> int32 list \<Rightarrow> nat result \<times> Client" where
  "netWrite c data =
     (case conn c of
        None \<Rightarrow> (Panic NilDereference, c)
      | Some cn \<Rightarrow>
          (case conn_Write (concat (map BigEndian_bytes data)) cn of
             ((n, Some err), cn') \<Rightarrow> (Err err, c\<lparr> conn := Some cn' \<rparr>)
           | ((n, None), cn') \<Rightarrow> (Ok n, c\<lparr> conn := Some cn' \<rparr>)))"

text \<open>The payload loop of \<^verbatim>\<open>readFromHeatPump\<close>,
  \<^verbatim>\<open>for i := uint32(0); i < length; i++\<close>, with \<open>k\<close> entries still to read at index \<open>i\<close>;
  it returns the entries \<^verbatim>\<open>rawValues[i:]\<close>.\<close>

fun read_entries :: "int32 \<Rightarrow> nat \<Rightarrow> u32 \<Rightarrow> Client \<Rightarrow> u32 list result \<times> Client" where
  "read_entries cmd 0 i c = (Ok [], c)"
| "read_entries cmd (Suc k) i c =
     (if cmd = VisibilitiesRead then
        (case readChar c of
           (Err err, c') \<Rightarrow> (Err (Errorf_paramID i err), c')
         | (Panic p, c') \<Rightarrow> (Panic p, c')
         | (Ok char, c') \<Rightarrow>
             (case read_entries cmd k (i + 1) c' of
                (Ok rest, c'') \<Rightarrow> (Ok (ucast char # rest), c'')
              | (Err err, c'') \<Rightarrow> (Err err, c'')
              | (Panic p, c'') \<Rightarrow> (Panic p, c'')))
      else
        (case readUint32 c of
           (Err err, c') \<Rightarrow> (Err (Errorf_paramID i err), c')
         | (Panic p, c') \<Rightarrow> (Panic p, c')
         | (Ok paramID, c') \<Rightarrow>
             (case read_entries cmd k (i + 1) c' of
                (Ok rest, c'') \<Rightarrow> (Ok (paramID # rest), c'')
              | (Err err, c'') \<Rightarrow> (Err err, c'')
              | (Panic p, c'') \<Rightarrow> (Panic p, c''))))"

text \<open>The status word: read, and dropped, when the command is \<^verbatim>\<open>CalculationsRead\<close>.\<close>

definition read_stat :: "int32 \<Rightarrow> Client \<Rightarrow> u32 result \<times> Client" where
  "read_stat cmd c = (if cmd = CalculationsRead then readUint32 c else (Ok 0, c))"

definition readFromHeatPump ::
  "Client \<Rightarrow> DataTypeMap \<Rightarrow> int32 list \<Rightarrow> heap \<Rightarrow> unit result \<times> Client \<times> heap" where
  "readFromHeatPump c pm data h =
     (if length data < 2 then (Err Errorf_empty, c, h)
      else case netWrite c data of
        (Err err, c1) \<Rightarrow> (Err (Errorf_netWrite (data ! 0) err), c1, h)
      | (Panic p, c1) \<Rightarrow> (Panic p, c1, h)
      | (Ok _, c1) \<Rightarrow>
      (case readUint32 c1 of
        (Err err, c2) \<Rightarrow> (Err (Errorf_readUint32_cmd err), c2, h)
      | (Panic p, c2) \<Rightarrow> (Panic p, c2, h)
      | (Ok cmd, c2) \<Rightarrow>
      (case read_stat (data ! 0) c2 of
        (Err err, c3) \<Rightarrow> (Err (Errorf_readUint32_cmd err), c3, h)
      | (Panic p, c3) \<Rightarrow> (Panic p, c3, h)
      | (Ok stat, c3) \<Rightarrow>
      if cmd \<noteq> data ! 0 then (Err (Errorf_invalid_command cmd (data ! 0)), c3, h)
      else
      (case readUint32 c3 of
        (Err err, c4) \<Rightarrow> (Err (Errorf_readUint32_length err), c4, h)
      | (Panic p, c4) \<Rightarrow> (Panic p, c4, h)
      | (Ok len, c4) \<Rightarrow>
      (case read_entries (data ! 0) (unat len) 0 c4 of
        (Err err, c5) \<Rightarrow> (Err err, c5, h)
      | (Panic p, c5) \<Rightarrow> (Panic p, c5, h)
      | (Ok rawValues, c5) \<Rightarrow>
          (case SetRawValues pm rawValues h of (r, h') \<Rightarrow> (r, c5, h')))))))"



definition readVisibilities :: "Client \<Rightarrow> DataTypeMap \<Rightarrow> heap \<Rightarrow> unit result \<times> Client \<times> heap" where
  "readVisibilities c pm h = readFromHeatPump c pm [VisibilitiesRead, 0] h"

section \<open>Calls and scenarios\<close>

text \<open>The methods of \<^verbatim>\<open>Base\<close> have a pointer receiver: a call may read and write the
  descriptor it is made on. Here each method body is a computation on the receiver, in
  the state monad: an expression \<^verbatim>\<open>b.f\<close> reads the field from the current state, an
  assignment \<^verbatim>\<open>b.f = e\<close> updates it, and running the computation gives the returned value
  together with the descriptor the call leaves behind.\<close>

definition field :: "(Base \<Rightarrow> 'a) \<Rightarrow> (Base, 'a) state" where
  "field f = do { b \<leftarrow> State_Monad.get; State_Monad.return (f b) }"

definition SetRaw_method :: "u32 \<Rightarrow> (Base, unit) state" where
  "SetRaw_method val = do {
     raw \<leftarrow> field rawValue;
     State_Monad.update (\<lambda>b. b\<lparr> prevRawValue := raw \<rparr>);
     State_Monad.update (\<lambda>b. b\<lparr> rawValue := val \<rparr>)
   }"

definition HasChanges_method :: "(Base, bool) state" where
  "HasChanges_method = do {
     prev \<leftarrow> field prevRawValue;
     raw \<leftarrow> field rawValue;
     State_Monad.return (prev \<noteq> raw)
   }"

definition FromHeatPump_method :: "lib \<Rightarrow> (Base, anyval result) state" where
  "FromHeatPump_method L = do {
     table \<leftarrow> field codes;
     case table of
       Some cs \<Rightarrow> do {
         raw \<leftarrow> field rawValue;
         if raw > word_of_nat (length cs)
         then State_Monad.return (Ok (VString (''unknown code: '' @ itoa (unat raw))))
         else State_Monad.return (index_codes cs (unat raw))
       }
     | None \<Rightarrow> do {
         custom \<leftarrow> field customFromHP;
         case custom of
           Some f \<Rightarrow> do {
             raw \<leftarrow> field rawValue;
             State_Monad.return (Ok (f raw))
           }
         | None \<Rightarrow> do {
             c \<leftarrow> field cls;
             nm \<leftarrow> field name;
             if c = classDuration \<and> nm = ''seconds''
             then do {
               raw \<leftarrow> field rawValue;
               State_Monad.return (Ok (VDuration (uint raw * 1000000000)))
             }
             else do {
               rt \<leftarrow> field returnType;
               fa \<leftarrow> field factor;
               raw \<leftarrow> field rawValue;
               case rt of
                 reflect_Uint32 \<Rightarrow>
                   if fa \<noteq> 0
                   then State_Monad.return (Ok (VUint32 (mul_to_uint32 L raw fa)))
                   else State_Monad.return (Ok (VUint32 raw))
               | reflect_Float32 \<Rightarrow>
                   if fa \<noteq> 0
                   then State_Monad.return (Ok (VFloat32 (roundFloat_mul L raw fa)))
                   else State_Monad.return (Ok (VFloat32 (float32_of L raw)))
               | _ \<Rightarrow> State_Monad.return (Ok (VUint32 raw))
             }
           }
       }
   }"

text \<open>\<open>k\<close> calls of \<^verbatim>\<open>FromHeatPump\<close> in a row on the same descriptor, their results
  dropped.\<close>

fun FromHeatPump_calls :: "lib \<Rightarrow> nat \<Rightarrow> (Base, unit) state" where
  "FromHeatPump_calls L 0 = State_Monad.return ()"
| "FromHeatPump_calls L (Suc k) = do { _ \<leftarrow> FromHeatPump_method L; FromHeatPump_calls L k }"

text \<open>A mock transport: a connected client whose peer delivers the given events and
  accepts every write.\<close>

definition mock_client :: "read_event list \<Rightarrow> Client" where
  "mock_client evs = \<lparr> host = ''192.168.0.121'', port = ''8889'',
     conn = Some \<lparr> incoming = evs, sent = [], write_error = None \<rparr> \<rparr>"



text \<open>A register map of three slots 0, 1, 2 whose descriptors live at the addresses
  0, 1, 2, and a heap of fresh count descriptors.\<close>

definition three_slots :: DataTypeMap where
  "three_slots = [0 \<mapsto> Some 0, 1 \<mapsto> Some 1, 2 \<mapsto> Some 2]"

definition fresh_heap :: heap where
  "fresh_heap = (\<lambda>a. NewCount ''slot'')"


section \<open>Properties of the descriptor codec\<close>

lemma find_code_None: "find_code cs s k = None \<longleftrightarrow> s \<notin> set cs"
  by (induction cs arbitrary: k) auto

lemma find_code_first:
  "i < length cs \<Longrightarrow> \<forall>j<i. cs ! j \<noteq> cs ! i \<Longrightarrow> find_code cs (cs ! i) k = Some (k + i)"
proof (induction cs arbitrary: i k)
  case Nil
  then show ?case by simp
next
  case (Cons c cs)
  show ?case
  proof (cases i)
    case 0
    then show ?thesis by simp
  next
    case (Suc m)
    with Cons.prems have neq: "c \<noteq> cs ! m" by auto
    from Cons.prems Suc have "m < length cs" by simp
    moreover from Cons.prems Suc have "\<forall>j<m. cs ! j \<noteq> cs ! m" by auto
    ultimately have "find_code cs (cs ! m) (Suc k) = Some (Suc k + m)"
      by (rule Cons.IH)
    with neq Suc show ?thesis by simp
  qed
qed

lemma decode_in_table:
  assumes "codes b = Some cs" "i < length cs" "length cs < 2 ^ 32"
  shows "FromHeatPump L (SetRaw b (word_of_nat i)) = Ok (VString (cs ! i))"
proof -
  from assms have i: "unat (word_of_nat i :: u32) = i"
    by (simp add: unat_of_nat)
  from assms have l: "unat (word_of_nat (length cs) :: u32) = length cs"
    by (simp add: unat_of_nat)
  from i l assms have "\<not> (word_of_nat (length cs) :: u32) < word_of_nat i"
    by (simp add: word_less_nat_alt)
  with i assms show ?thesis
    by (simp add: FromHeatPump_def SetRaw_def index_codes_def)
qed

lemma encode_in_table:
  assumes "writeable b" "codes b = Some cs" "i < length cs" "distinct cs"
  shows "ToHeatPump L b (VString (cs ! i)) = Ok (word_of_nat i)"
proof -
  from assms have "\<forall>j<i. cs ! j \<noteq> cs ! i"
    by (auto simp: nth_eq_iff_index_eq)
  with assms have "find_code cs (cs ! i) 0 = Some (0 + i)"
    by (intro find_code_first)
  with assms show ?thesis
    by (simp add: ToHeatPump_def cast_ToString_def)
qed

lemma writeable_enums_tables:
  "C \<in> set writeable_enums \<Longrightarrow> \<exists>cs. codes (C n w) = Some cs \<and> distinct cs \<and> length cs < 2 ^ 32 \<and> writeable (C n w) = w"
  by (auto simp: writeable_enums_def NewHeatingMode_def NewHotWaterMode_def NewPoolMode_def
      NewAccessLevel_def NewMixedCircuitMode_def NewCoolingMode_def NewSolarMode_def
      NewVentilationMode_def zero_Base_def)

text \<open>The enumerated descriptors built without a \<^verbatim>\<open>writeable\<close> argument are read-only, so
  encode fails on them whatever the string; the secondary operation mode is one of them,
  and its table repeats the string of slot 6 in slot 7.\<close>

lemma SecOperationMode_read_only:
  "ToHeatPump L (NewSecOperationMode n) v = Err (Errorf_non_writeable v)"
  "codes (NewSecOperationMode n) = Some cs \<Longrightarrow>
     cs ! 7 = ''waiting'' \<and> find_code cs ''waiting'' 0 = Some 6"
  by (auto simp: ToHeatPump_def NewSecOperationMode_def zero_Base_def)

lemma SetRaw_fields [simp]:
  "codes (SetRaw b r) = codes b" "writeable (SetRaw b r) = writeable b"
  "rawValue (SetRaw b r) = r" "prevRawValue (SetRaw b r) = rawValue b"
  by (simp_all add: SetRaw_def)


lemma fresh_constructors:
  "rawValue (NewCelsius n w) = 0 \<and> prevRawValue (NewCelsius n w) = 0"
  "rawValue (NewHours2 n w) = 0 \<and> prevRawValue (NewHours2 n w) = 0"
  "rawValue (NewHeatingMode n w) = 0 \<and> prevRawValue (NewHeatingMode n w) = 0"
  "rawValue (NewCount n) = 0 \<and> prevRawValue (NewCount n) = 0"
  "rawValue zero_Base = 0 \<and> prevRawValue zero_Base = 0"
  by (simp_all add: NewCelsius_def NewHours2_def NewHeatingMode_def NewCount_def zero_Base_def)

text \<open>C1. Decoding an enumerated descriptor is meant to yield the slot's string or the
  text "unknown code: raw", with a raw value equal to the table's length out of range.
  The source compares with \<^verbatim>\<open>>\<close>: on the heating-mode table, of length 5, raw 4 yields
  its string and raw 6 the unknown-code text, but raw 5 passes the check and the
  indexing panics.\<close>

theorem FromHeatPump_raw_eq_len_panics:
  "FromHeatPump L (SetRaw (NewHeatingMode n w) 4) = Ok (VString ''Off'')
   \<and> FromHeatPump L (SetRaw (NewHeatingMode n w) 6) = Ok (VString ''unknown code: 6'')
   \<and> FromHeatPump L (SetRaw (NewHeatingMode n w) 5) = Panic (IndexOutOfRange 5 5)"
  by (simp add: FromHeatPump_def NewHeatingMode_def zero_Base_def index_codes_def
      itoa.simps digit_def)

text \<open>C2. For a writeable hours2 descriptor decode maps raw 10 to 6, but encode calls
  the custom encoder on the current raw value and not on the requested one: with raw 10
  every request, 6 among them, is answered with (10 - 1) * 2 = 18.\<close>

theorem hours2_encode_uses_raw:
  "FromHeatPump L (SetRaw (NewHours2 n True) 10) = Ok (VUint32 6)
   \<and> ToHeatPump L (SetRaw (NewHours2 n True) 10) (VInt 6) = Ok 18
   \<and> ToHeatPump L (SetRaw (NewHours2 n True) 10) v = Ok 18"
  by (simp add: FromHeatPump_def ToHeatPump_def SetRaw_def NewHours2_def zero_Base_def
      cast_ToUint32_def)

text \<open>C3, as stated: encoding on a non-writeable descriptor returns the sentinel
  \<open>ErrWritingNotAllowed\<close>. It does not: the Celsius descriptor built read-only answers
  with the formatted error of its own call site.\<close>

theorem non_writeable_not_sentinel:
  "ToHeatPump inert_lib (NewCelsius ''ID_WEB_Temperatur_TVL'' False) (VInt 21)
     = Err (Errorf_non_writeable (VInt 21))
   \<and> ToHeatPump inert_lib (NewCelsius ''ID_WEB_Temperatur_TVL'' False) (VInt 21)
     \<noteq> Err ErrWritingNotAllowed"
  by (simp add: ToHeatPump_def NewCelsius_def zero_Base_def)

text \<open>C3, amended. For every non-writeable descriptor and every input value encode
  fails, with the formatted error "can't write non-writeable value", which is not the
  sentinel; and when the requested string is in no slot of a writeable descriptor's code
  table, encode fails with the formatted error "can't find value ... in list of codes",
  which is not the sentinel either.\<close>

theorem ToHeatPump_failures:
  "(\<not> writeable b \<longrightarrow>
      ToHeatPump L b v = Err (Errorf_non_writeable v)
      \<and> ToHeatPump L b v \<noteq> Err ErrWritingNotAllowed)
   \<and> (writeable b \<and> codes b = Some cs \<and> cast_ToString L v \<notin> set cs \<longrightarrow>
      ToHeatPump L b v = Err (Errorf_code_not_found (cast_ToString L v))
      \<and> ToHeatPump L b v \<noteq> Err ErrWritingNotAllowed)"
proof (intro conjI impI)
  assume "\<not> writeable b"
  then show "ToHeatPump L b v = Err (Errorf_non_writeable v)"
    by (simp add: ToHeatPump_def)
  then show "ToHeatPump L b v \<noteq> Err ErrWritingNotAllowed"
    by simp
next
  assume h: "writeable b \<and> codes b = Some cs \<and> cast_ToString L v \<notin> set cs"
  then have "find_code cs (cast_ToString L v) 0 = None"
    by (simp add: find_code_None)
  with h show e: "ToHeatPump L b v = Err (Errorf_code_not_found (cast_ToString L v))"
    by (simp add: ToHeatPump_def)
  then show "ToHeatPump L b v \<noteq> Err ErrWritingNotAllowed"
    by simp
qed

theorem ToHeatPump_failures_witness:
  "\<not> writeable (NewCount ''ID_WEB_AnzahlFehlerInSpeicher'')
   \<and> ToHeatPump inert_lib (NewCount ''ID_WEB_AnzahlFehlerInSpeicher'') (VUint32 1)
       = Err (Errorf_non_writeable (VUint32 1))
   \<and> writeable (NewCoolingMode ''ID_Einst_BA_Kuehl'' True)
   \<and> codes (NewCoolingMode ''ID_Einst_BA_Kuehl'' True) = Some [''Off'', ''Automatic'']
   \<and> cast_ToString inert_lib (VString ''definitely-not-a-code'') \<notin> set [''Off'', ''Automatic'']
   \<and> ToHeatPump inert_lib (NewCoolingMode ''ID_Einst_BA_Kuehl'' True)
         (VString ''definitely-not-a-code'')
       = Err (Errorf_code_not_found ''definitely-not-a-code'')"
proof -
  have a: "\<not> writeable (NewCount ''ID_WEB_AnzahlFehlerInSpeicher'')"
    by (simp add: NewCount_def zero_Base_def)
  have b: "writeable (NewCoolingMode ''ID_Einst_BA_Kuehl'' True)
      \<and> codes (NewCoolingMode ''ID_Einst_BA_Kuehl'' True) = Some [''Off'', ''Automatic'']
      \<and> cast_ToString inert_lib (VString ''definitely-not-a-code'') \<notin> set [''Off'', ''Automatic'']"
    by (simp add: NewCoolingMode_def zero_Base_def cast_ToString_def)
  have s: "cast_ToString inert_lib (VString ''definitely-not-a-code'') = ''definitely-not-a-code''"
    by (simp add: cast_ToString_def)
  note t1 = ToHeatPump_failures [where b = "NewCount ''ID_WEB_AnzahlFehlerInSpeicher''"
      and L = inert_lib and v = "VUint32 1" and cs = "[]"]
  note t2 = ToHeatPump_failures [where b = "NewCoolingMode ''ID_Einst_BA_Kuehl'' True"
      and L = inert_lib and v = "VString ''definitely-not-a-code''"
      and cs = "[''Off'', ''Automatic'']"]
  from t1 a have r1: "ToHeatPump inert_lib (NewCount ''ID_WEB_AnzahlFehlerInSpeicher'')
      (VUint32 1) = Err (Errorf_non_writeable (VUint32 1))"
    by blast
  from t2 b have "ToHeatPump inert_lib (NewCoolingMode ''ID_Einst_BA_Kuehl'' True)
      (VString ''definitely-not-a-code'')
    = Err (Errorf_code_not_found (cast_ToString inert_lib (VString ''definitely-not-a-code'')))"
    by blast
  then have r2: "ToHeatPump inert_lib (NewCoolingMode ''ID_Einst_BA_Kuehl'' True)
      (VString ''definitely-not-a-code'') = Err (Errorf_code_not_found ''definitely-not-a-code'')"
    by (simp only: s)
  from a b r1 r2 show ?thesis
    by blast
qed

text \<open>C4, as stated: after one set-raw a descriptor reports no change. It reports one
  whenever the value set differs from the initial raw value 0.\<close>

theorem first_SetRaw_reports_change:
  "\<not> HasChanges (NewCelsius ''ID_WEB_Temperatur_TVL'' False)
   \<and> HasChanges (SetRaw (NewCelsius ''ID_WEB_Temperatur_TVL'' False) 215)"
  by (simp add: HasChanges_def SetRaw_def NewCelsius_def zero_Base_def)

text \<open>C4, amended. A fresh descriptor (raw and previous raw both 0, as every constructor
  leaves them) reports no change; after one set-raw it reports a change exactly when the
  value set is not 0; after a second set-raw with a value different from the first it
  reports a change; after a third set-raw repeating the second value it reports none.\<close>

theorem change_detection:
  assumes "rawValue b = 0" and "prevRawValue b = 0"
  shows "\<not> HasChanges b
    \<and> (HasChanges (SetRaw b v1) \<longleftrightarrow> v1 \<noteq> 0)
    \<and> (v2 \<noteq> v1 \<longrightarrow> HasChanges (SetRaw (SetRaw b v1) v2))
    \<and> \<not> HasChanges (SetRaw (SetRaw (SetRaw b v1) v2) v2)"
  using assms by (auto simp: HasChanges_def SetRaw_def)

theorem change_detection_witness:
  "rawValue (NewHours2 ''ID_Einst_HzMK1ABS_akt'' True) = 0
   \<and> prevRawValue (NewHours2 ''ID_Einst_HzMK1ABS_akt'' True) = 0
   \<and> (20::u32) \<noteq> 10
   \<and> \<not> HasChanges (NewHours2 ''ID_Einst_HzMK1ABS_akt'' True)
   \<and> HasChanges (SetRaw (NewHours2 ''ID_Einst_HzMK1ABS_akt'' True) 10)
   \<and> HasChanges (SetRaw (SetRaw (NewHours2 ''ID_Einst_HzMK1ABS_akt'' True) 10) 20)
   \<and> \<not> HasChanges (SetRaw (SetRaw (SetRaw (NewHours2 ''ID_Einst_HzMK1ABS_akt'' True) 10) 20) 20)"
proof -
  have f: "rawValue (NewHours2 ''ID_Einst_HzMK1ABS_akt'' True) = 0"
    "prevRawValue (NewHours2 ''ID_Einst_HzMK1ABS_akt'' True) = 0"
    by (simp_all add: fresh_constructors)
  have n: "(20::u32) \<noteq> 10" "(10::u32) \<noteq> 0"
    by simp_all
  note t = change_detection [where b = "NewHours2 ''ID_Einst_HzMK1ABS_akt'' True"
      and ?v1.0 = 10 and ?v2.0 = 20]
  from t f n show ?thesis
    by blast
qed

text \<open>C5. A writeable descriptor without code table and custom encoder, of integer
  shape and factor 0, is meant to encode the requested value. The branch for
  \<^verbatim>\<open>reflect.Uint32\<close> returns the current raw value instead, whatever is requested, where
  its sibling for \<^verbatim>\<open>reflect.Float32\<close> converts the request; the default branch, which a
  writeable minutes descriptor takes, returns the raw value too.\<close>

theorem integer_encode_returns_raw:
  "ToHeatPump L (SetRaw ((NewCount n)\<lparr> writeable := True \<rparr>) 7) (VUint32 3) = Ok 7
   \<and> ToHeatPump L (SetRaw ((NewFlow n)\<lparr> writeable := True \<rparr>) 7) (VUint32 3) = Ok 3
   \<and> ToHeatPump L (SetRaw (NewMinutes n True) 7) (VUint32 3) = Ok 7"
  by (simp add: ToHeatPump_def SetRaw_def NewCount_def NewFlow_def NewMinutes_def
      zero_Base_def cast_ToUint32_def)

text \<open>C7. For each of the eight enumerated descriptors that can be writeable, and each
  index \<open>i\<close> of its code table with string \<open>s\<close>: decoding raw \<open>i\<close> yields \<open>s\<close>, and
  encoding \<open>s\<close> yields \<open>i\<close>, whatever the current raw value.\<close>

theorem code_table_symmetry:
  assumes "C \<in> set writeable_enums" "codes (C n True) = Some cs" "i < length cs"
  shows "FromHeatPump L (SetRaw (C n True) (word_of_nat i)) = Ok (VString (cs ! i))
       \<and> ToHeatPump L (SetRaw (C n True) r) (VString (cs ! i)) = Ok (word_of_nat i)"
proof -
  from writeable_enums_tables [OF assms(1), of n True] assms(2)
  have d: "distinct cs" and l: "length cs < 2 ^ 32" and w: "writeable (C n True)"
    by auto
  have "FromHeatPump L (SetRaw (C n True) (word_of_nat i)) = Ok (VString (cs ! i))"
    using assms(2,3) l by (rule decode_in_table)
  moreover have "ToHeatPump L (SetRaw (C n True) r) (VString (cs ! i)) = Ok (word_of_nat i)"
    by (rule encode_in_table) (use w assms d in simp_all)
  ultimately show ?thesis by simp
qed


theorem code_table_symmetry_witness:
  "NewMixedCircuitMode \<in> set writeable_enums
   \<and> codes (NewMixedCircuitMode ''ID_Einst_BA_MK1'' True)
       = Some [''Automatic'', [], ''Party'', ''Holidays'', ''Off'']
   \<and> (3::nat) < length [''Automatic'', [], ''Party'', ''Holidays'', ''Off'']
   \<and> FromHeatPump inert_lib (SetRaw (NewMixedCircuitMode ''ID_Einst_BA_MK1'' True) 3)
       = Ok (VString ''Holidays'')
   \<and> ToHeatPump inert_lib (SetRaw (NewMixedCircuitMode ''ID_Einst_BA_MK1'' True) 0)
         (VString ''Holidays'') = Ok 3"
proof -
  have a: "NewMixedCircuitMode \<in> set writeable_enums"
    by (simp add: writeable_enums_def)
  have b: "codes (NewMixedCircuitMode ''ID_Einst_BA_MK1'' True)
      = Some [''Automatic'', [], ''Party'', ''Holidays'', ''Off'']"
    by (simp add: NewMixedCircuitMode_def zero_Base_def)
  have c: "(3::nat) < length [''Automatic'', [], ''Party'', ''Holidays'', ''Off'']"
    by simp
  have w0: "[''Automatic'', [], ''Party'', ''Holidays'', ''Off''] ! (3::nat) = ''Holidays''"
    by simp
  have w1: "(word_of_nat 3 :: u32) = 3"
    by simp
  note t = code_table_symmetry [where C = NewMixedCircuitMode and n = "''ID_Einst_BA_MK1''"
      and cs = "[''Automatic'', [], ''Party'', ''Holidays'', ''Off'']" and i = 3
      and L = inert_lib and r = 0]
  have "FromHeatPump inert_lib (SetRaw (NewMixedCircuitMode ''ID_Einst_BA_MK1'' True)
        (word_of_nat 3))
      = Ok (VString ([''Automatic'', [], ''Party'', ''Holidays'', ''Off''] ! 3))
    \<and> ToHeatPump inert_lib (SetRaw (NewMixedCircuitMode ''ID_Einst_BA_MK1'' True) 0)
        (VString ([''Automatic'', [], ''Party'', ''Holidays'', ''Off''] ! 3))
      = Ok (word_of_nat 3)"
    using a b c by (rule t)
  then have "FromHeatPump inert_lib (SetRaw (NewMixedCircuitMode ''ID_Einst_BA_MK1'' True) 3)
      = Ok (VString ''Holidays'')
    \<and> ToHeatPump inert_lib (SetRaw (NewMixedCircuitMode ''ID_Einst_BA_MK1'' True) 0)
        (VString ''Holidays'') = Ok 3"
    by (simp only: w0 w1)
  with a b c show ?thesis
    by blast
qed

text \<open>The method bodies compute what the functions on descriptors above say:
  \<^verbatim>\<open>SetRaw\<close> leaves the descriptor \<open>SetRaw b val\<close>, \<^verbatim>\<open>HasChanges\<close> answers \<open>HasChanges b\<close>,
  and \<^verbatim>\<open>FromHeatPump\<close> returns \<open>FromHeatPump L b\<close>.\<close>

lemma SetRaw_method_run: "run_state (SetRaw_method val) b = ((), SetRaw b val)"
  by (simp add: SetRaw_method_def field_def State_Monad.update_def SetRaw_def)

lemma HasChanges_method_run: "run_state HasChanges_method b = (HasChanges b, b)"
  by (simp add: HasChanges_method_def field_def HasChanges_def)

lemma FromHeatPump_method_result: "fst (run_state (FromHeatPump_method L) b) = FromHeatPump L b"
  by (simp add: FromHeatPump_method_def field_def FromHeatPump_def
      split: option.splits Kind.splits)

text \<open>C10. Decoding never changes the descriptor: the body of \<^verbatim>\<open>FromHeatPump\<close>, run on
  any descriptor, leaves that descriptor as it was, and so after any number of calls the
  raw value, the previous raw value and the answer of \<^verbatim>\<open>HasChanges\<close> are what they were
  before; a call of \<^verbatim>\<open>SetRaw\<close> in between is seen unchanged by the calls that follow.\<close>

theorem FromHeatPump_frame:
  "snd (run_state (FromHeatPump_method L) b) = b
   \<and> rawValue (snd (run_state (FromHeatPump_calls L k) b)) = rawValue b
   \<and> prevRawValue (snd (run_state (FromHeatPump_calls L k) b)) = prevRawValue b
   \<and> fst (run_state (do { _ \<leftarrow> FromHeatPump_calls L k; HasChanges_method }) b)
       = fst (run_state HasChanges_method b)
   \<and> run_state (do { _ \<leftarrow> SetRaw_method val; _ \<leftarrow> FromHeatPump_calls L k; HasChanges_method }) b
       = run_state (do { _ \<leftarrow> SetRaw_method val; HasChanges_method }) b"
proof -
  have one: "snd (run_state (FromHeatPump_method L) b') = b'" for b'
    by (simp add: FromHeatPump_method_def field_def split: option.splits Kind.splits)
  have many: "snd (run_state (FromHeatPump_calls L k) b') = b'" for b'
  proof (induction k arbitrary: b')
    case 0
    show ?case by simp
  next
    case (Suc k)
    have "snd (run_state (FromHeatPump_calls L (Suc k)) b')
        = snd (run_state (FromHeatPump_calls L k) (snd (run_state (FromHeatPump_method L) b')))"
      by (simp add: split_beta)
    with one [of b'] Suc.IH show ?case
      by simp
  qed
  from one many show ?thesis
    by (simp add: split_beta)
qed

section \<open>Properties of the register map\<close>

lemma SetRawValues_loop_dense:
  assumes "\<forall>i<length data. map_index pm (int (k + i)) = Some (ad (k + i))"
    and "inj_on ad {k..<k + length data}"
  shows "\<exists>h'. SetRawValues_loop pm k data h = (Ok (), h')
    \<and> (\<forall>i<length data. h' (ad (k + i)) = SetRaw (h (ad (k + i))) (data ! i))
    \<and> (\<forall>a. a \<notin> ad ` {k..<k + length data} \<longrightarrow> h' a = h a)"
  using assms
proof (induction data arbitrary: k h)
  case Nil
  then show ?case by simp
next
  case (Cons raw rest)
  let ?h1 = "h(ad k := SetRaw (h (ad k)) raw)"
  from Cons.prems(1) have here: "map_index pm (int k) = Some (ad k)"
    by force
  have "\<forall>i<length rest. map_index pm (int (Suc k + i)) = Some (ad (Suc k + i))"
  proof (intro allI impI)
    fix i assume "i < length rest"
    then have "Suc i < length (raw # rest)" by simp
    with Cons.prems(1) have "map_index pm (int (k + Suc i)) = Some (ad (k + Suc i))"
      by blast
    then show "map_index pm (int (Suc k + i)) = Some (ad (Suc k + i))" by simp
  qed
  moreover have inj': "inj_on ad {Suc k..<Suc k + length rest}"
    by (rule inj_on_subset [OF Cons.prems(2)]) auto
  ultimately obtain h' where
    run: "SetRawValues_loop pm (Suc k) rest ?h1 = (Ok (), h')"
    and upd: "\<forall>i<length rest. h' (ad (Suc k + i)) = SetRaw (?h1 (ad (Suc k + i))) (rest ! i)"
    and frame: "\<forall>a. a \<notin> ad ` {Suc k..<Suc k + length rest} \<longrightarrow> h' a = ?h1 a"
    using Cons.IH [of "Suc k" ?h1] by blast
  have apart: "ad (Suc k + i) \<noteq> ad k" if "i < length rest" for i
  proof
    assume "ad (Suc k + i) = ad k"
    moreover from that have "Suc k + i \<in> {k..<k + length (raw # rest)}"
      and "k \<in> {k..<k + length (raw # rest)}" by simp_all
    ultimately have "Suc k + i = k"
      using Cons.prems(2) by (meson inj_onD)
    then show False by simp
  qed
  have first: "ad k \<notin> ad ` {Suc k..<Suc k + length rest}"
  proof
    assume "ad k \<in> ad ` {Suc k..<Suc k + length rest}"
    then obtain j where j: "j \<in> {Suc k..<Suc k + length rest}" and e: "ad k = ad j"
      by blast
    from j have "j - Suc k < length rest" and "Suc k + (j - Suc k) = j" by auto
    with apart [of "j - Suc k"] e show False by simp
  qed
  have "SetRawValues_loop pm k (raw # rest) h = (Ok (), h')"
    using here run by simp
  moreover have "\<forall>i<length (raw # rest). h' (ad (k + i)) = SetRaw (h (ad (k + i))) ((raw # rest) ! i)"
  proof (intro allI impI)
    fix i assume i: "i < length (raw # rest)"
    show "h' (ad (k + i)) = SetRaw (h (ad (k + i))) ((raw # rest) ! i)"
    proof (cases i)
      case 0
      with frame first show ?thesis by simp
    next
      case (Suc m)
      with i have m: "m < length rest" by simp
      with upd have "h' (ad (Suc k + m)) = SetRaw (?h1 (ad (Suc k + m))) (rest ! m)"
        by blast
      with apart [OF m] Suc show ?thesis by simp
    qed
  qed
  moreover have "\<forall>a. a \<notin> ad ` {k..<k + length (raw # rest)} \<longrightarrow> h' a = h a"
  proof (intro allI impI)
    fix a assume a: "a \<notin> ad ` {k..<k + length (raw # rest)}"
    then have "a \<noteq> ad k" by auto
    moreover from a have "a \<notin> ad ` {Suc k..<Suc k + length rest}" by auto
    ultimately show "h' a = h a" using frame by simp
  qed
  ultimately show ?case by blast
qed

text \<open>C9. When the vector's length differs from the size of the map, set-raw-values
  returns the length-mismatch error and the heap, hence every descriptor's raw and
  previous raw value, is unchanged. When the lengths agree and the map is dense (slot
  \<open>i\<close> holds the descriptor at address \<open>ad i\<close>, distinct slots distinct descriptors), the
  call succeeds and the descriptor of each slot \<open>i\<close> has received the \<open>i\<close>-th value through
  \<^verbatim>\<open>SetRaw\<close>: its raw value is the \<open>i\<close>-th value of the vector, its previous raw value is
  the raw value it had before the call, and no other object changes.\<close>

theorem SetRawValues_spec:
  "(length data \<noteq> len_map pm \<longrightarrow>
      SetRawValues pm data h = (Err (Errorf_length_mismatch (length data) (len_map pm)), h))
   \<and> (length data = len_map pm \<and> (\<forall>i<length data. pm (int i) = Some (Some (ad i)))
        \<and> inj_on ad {..<length data} \<longrightarrow>
      (\<exists>h'. SetRawValues pm data h = (Ok (), h')
        \<and> (\<forall>i<length data. h' (ad i) = SetRaw (h (ad i)) (data ! i)
              \<and> rawValue (h' (ad i)) = data ! i
              \<and> prevRawValue (h' (ad i)) = rawValue (h (ad i)))
        \<and> (\<forall>a. a \<notin> ad ` {..<length data} \<longrightarrow> h' a = h a)))"
proof (intro conjI impI)
  assume "length data \<noteq> len_map pm"
  then show "SetRawValues pm data h
      = (Err (Errorf_length_mismatch (length data) (len_map pm)), h)"
    by (simp add: SetRawValues_def)
next
  assume h: "length data = len_map pm \<and> (\<forall>i<length data. pm (int i) = Some (Some (ad i)))
      \<and> inj_on ad {..<length data}"
  then have len: "length data = len_map pm"
    and dense: "\<forall>i<length data. pm (int i) = Some (Some (ad i))"
    and inj: "inj_on ad {..<length data}"
    by blast+
  from dense have "\<forall>i<length data. map_index pm (int (0 + i)) = Some (ad (0 + i))"
    by (simp add: map_index_def)
  moreover from inj have "inj_on ad {0..<0 + length data}"
    by (simp add: lessThan_atLeast0)
  ultimately have "\<exists>h'. SetRawValues_loop pm 0 data h = (Ok (), h')
    \<and> (\<forall>i<length data. h' (ad (0 + i)) = SetRaw (h (ad (0 + i))) (data ! i))
    \<and> (\<forall>a. a \<notin> ad ` {0..<0 + length data} \<longrightarrow> h' a = h a)"
    by (rule SetRawValues_loop_dense)
  then obtain h' where run: "SetRawValues_loop pm 0 data h = (Ok (), h')"
    and each: "\<forall>i<length data. h' (ad i) = SetRaw (h (ad i)) (data ! i)"
    and frame: "\<forall>a. a \<notin> ad ` {..<length data} \<longrightarrow> h' a = h a"
    by (auto simp: lessThan_atLeast0)
  have "h' (ad i) = SetRaw (h (ad i)) (data ! i) \<and> rawValue (h' (ad i)) = data ! i
      \<and> prevRawValue (h' (ad i)) = rawValue (h (ad i))" if "i < length data" for i
  proof -
    from each that have e: "h' (ad i) = SetRaw (h (ad i)) (data ! i)"
      by blast
    then have "rawValue (h' (ad i)) = data ! i"
      and "prevRawValue (h' (ad i)) = rawValue (h (ad i))"
      by (simp_all add: SetRaw_def)
    with e show ?thesis
      by blast
  qed
  then have fields: "\<forall>i<length data. h' (ad i) = SetRaw (h (ad i)) (data ! i)
      \<and> rawValue (h' (ad i)) = data ! i \<and> prevRawValue (h' (ad i)) = rawValue (h (ad i))"
    by blast
  from len have "SetRawValues pm data h = SetRawValues_loop pm 0 data h"
    by (simp add: SetRawValues_def)
  with run have "SetRawValues pm data h = (Ok (), h')"
    by simp
  with fields frame show "\<exists>h'. SetRawValues pm data h = (Ok (), h')
        \<and> (\<forall>i<length data. h' (ad i) = SetRaw (h (ad i)) (data ! i)
              \<and> rawValue (h' (ad i)) = data ! i
              \<and> prevRawValue (h' (ad i)) = rawValue (h (ad i)))
        \<and> (\<forall>a. a \<notin> ad ` {..<length data} \<longrightarrow> h' a = h a)"
    by blast
qed

lemma len_three_slots: "len_map three_slots = 3"
  by (simp add: len_map_def three_slots_def)

lemma three_slots_dense: "\<forall>i<3. three_slots (int i) = Some (Some i)"
proof (intro allI impI)
  fix i :: nat assume "i < 3"
  then have "i = 0 \<or> i = 1 \<or> i = 2" by auto
  then show "three_slots (int i) = Some (Some i)"
    by (auto simp: three_slots_def)
qed

theorem SetRawValues_spec_witness:
  "length [10, 20 :: u32] \<noteq> len_map three_slots
   \<and> SetRawValues three_slots [10, 20] fresh_heap
       = (Err (Errorf_length_mismatch 2 3), fresh_heap)
   \<and> length [10, 20, 30 :: u32] = len_map three_slots
   \<and> three_slots (int 0) = Some (Some 0) \<and> three_slots (int 1) = Some (Some 1)
   \<and> three_slots (int 2) = Some (Some 2)
   \<and> inj_on (\<lambda>i::nat. i) {..<length [10, 20, 30 :: u32]}
   \<and> fst (SetRawValues three_slots [10, 20, 30] (fresh_heap(1 := SetRaw (fresh_heap 1) 7)))
       = Ok ()
   \<and> rawValue (snd (SetRawValues three_slots [10, 20, 30]
         (fresh_heap(1 := SetRaw (fresh_heap 1) 7))) 1) = 20
   \<and> prevRawValue (snd (SetRawValues three_slots [10, 20, 30]
         (fresh_heap(1 := SetRaw (fresh_heap 1) 7))) 1) = 7"
proof -
  let ?h = "fresh_heap(1 := SetRaw (fresh_heap 1) 7)"
  have a: "length [10, 20 :: u32] \<noteq> len_map three_slots"
    by (simp add: len_three_slots)
  have b: "length [10, 20, 30 :: u32] = len_map three_slots"
    by (simp add: len_three_slots)
  have c: "\<forall>i<length [10, 20, 30 :: u32]. three_slots (int i) = Some (Some i)"
    using three_slots_dense by simp
  have d: "inj_on (\<lambda>i::nat. i) {..<length [10, 20, 30 :: u32]}"
    by simp
  note t1 = SetRawValues_spec [where data = "[10, 20]" and pm = three_slots
      and h = fresh_heap and ad = "\<lambda>i. i"]
  note t2 = SetRawValues_spec [where data = "[10, 20, 30]" and pm = three_slots
      and h = ?h and ad = "\<lambda>i. i"]
  from t1 a have "SetRawValues three_slots [10, 20] fresh_heap
      = (Err (Errorf_length_mismatch (length [10, 20 :: u32]) (len_map three_slots)), fresh_heap)"
    by blast
  then have r1: "SetRawValues three_slots [10, 20] fresh_heap
      = (Err (Errorf_length_mismatch 2 3), fresh_heap)"
    by (simp add: len_three_slots)
  from t2 b c d obtain h' where
    ok: "SetRawValues three_slots [10, 20, 30] ?h = (Ok (), h')"
    and each: "\<forall>i<length [10, 20, 30 :: u32].
      rawValue (h' i) = [10, 20, 30] ! i \<and> prevRawValue (h' i) = rawValue (?h i)"
    by blast
  from each have "rawValue (h' 1) = [10, 20, 30] ! 1 \<and> prevRawValue (h' 1) = rawValue (?h 1)"
    by simp
  then have "rawValue (h' 1) = 20 \<and> prevRawValue (h' 1) = 7"
    by simp
  with ok have r2: "fst (SetRawValues three_slots [10, 20, 30] ?h) = Ok ()
      \<and> rawValue (snd (SetRawValues three_slots [10, 20, 30] ?h) 1) = 20
      \<and> prevRawValue (snd (SetRawValues three_slots [10, 20, 30] ?h) 1) = 7"
    by simp
  have c': "three_slots (int 0) = Some (Some 0) \<and> three_slots (int 1) = Some (Some 1)
      \<and> three_slots (int 2) = Some (Some 2)"
    by (simp add: three_slots_def)
  from a r1 b c' d r2 show ?thesis
    by blast
qed

section \<open>Properties of the session\<close>























text \<open>C8. Reading one unsigned 32-bit integer is meant to loop on short reads until four
  bytes have arrived, as \<^verbatim>\<open>netRead\<close> does, and never to index out of range.
  \<^verbatim>\<open>readUint32\<close> calls \<^verbatim>\<open>Read\<close> once: when the four bytes of 3004 arrive as two and two, it
  hands the two bytes of the first arrival to \<^verbatim>\<open>binary.BigEndian.Uint32\<close>, which panics with
  an index out of range, and the other two bytes stay in the stream. \<^verbatim>\<open>netRead\<close> on the
  same stream collects the four bytes; \<^verbatim>\<open>readUint32\<close> decodes them when they arrive
  together.\<close>

theorem readUint32_short_read_panics:
  "readUint32 (mock_client [Chunk [0, 0], Chunk [11, 188]])
     = (Panic (IndexOutOfRange 3 2), mock_client [Chunk [11, 188]])
   \<and> netRead (mock_client [Chunk [0, 0], Chunk [11, 188]]) 4
     = (Ok ([0, 0, 11, 188], None), mock_client [])
   \<and> readUint32 (mock_client [Chunk [0, 0, 11, 188]]) = (Ok 3004, mock_client [])"
proof -
  have "readUint32 (mock_client [Chunk [0, 0], Chunk [11, 188]])
     = (Panic (IndexOutOfRange 3 2), mock_client [Chunk [11, 188]])"
    by (simp add: readUint32_def mock_client_def conn_Read_def SocketReadSizeInteger_def
        BigEndian_Uint32_def)
  moreover have "netRead (mock_client [Chunk [0, 0], Chunk [11, 188]]) 4
     = (Ok ([0, 0, 11, 188], None), mock_client [])"
    by (simp add: netRead_def mock_client_def conn_Read_def
        netRead_loop.simps [of 4 "[]"] netRead_loop.simps [of 2 "[0, 0]"])
  moreover have "readUint32 (mock_client [Chunk [0, 0, 11, 188]]) = (Ok 3004, mock_client [])"
    by (simp add: readUint32_def mock_client_def conn_Read_def SocketReadSizeInteger_def
        BigEndian_Uint32_def)
  ultimately show ?thesis
    by (intro conjI)
qed

end
